theory Spec2Isabelle
  imports Main
begin

section \<open>Python values, exceptions and sets\<close>

text \<open>
  The exceptions that can leave the validators: the \<open>KeyError\<close> of \<open>set.pop()\<close> on an
  empty set, the \<open>IndexError\<close> of \<open>broker_node_group_info[0]\<close> on an empty list, and the
  two exception classes of \<open>validate_plan.py\<close>, each carrying the id it was built with.
\<close>

datatype error =
    KeyError
  | IndexError
  | SubnetNotFoundError string
  | SecurityGroupNotFoundError string

text \<open>\<open>str(e)\<close> of an exception: the message its constructor passes to \<open>Exception\<close>.\<close>

fun str_error :: "error \<Rightarrow> string" where
  "str_error (SubnetNotFoundError subnet) = ''Subnet '' @ subnet @ '' does not exist''"
| "str_error (SecurityGroupNotFoundError sg) = ''Security Group '' @ sg @ '' does not exist''"
| "str_error KeyError = ''KeyError''"
| "str_error IndexError = ''IndexError''"

text \<open>
  A record of the cloud inventory (\<open>SubnetTypeDef\<close>, \<open>SecurityGroupTypeDef\<close>,
  \<open>KafkaVersionTypeDef\<close>) is a dict from attribute names to strings:
  \<open>d k = None\<close> is \<open>k not in d\<close>, and \<open>d.get(k)\<close> is \<open>d k\<close>.
\<close>

type_synonym pydict = "string \<rightharpoonup> string"

text \<open>An f-string field holding \<open>d.get(k)\<close>: the string itself, or \<open>None\<close> written out.\<close>

definition str_opt :: "string option \<Rightarrow> string" where
  "str_opt x = (case x of None \<Rightarrow> ''None'' | Some s \<Rightarrow> s)"

text \<open>\<open>sep.join(xs)\<close>.\<close>

fun join :: "string \<Rightarrow> string list \<Rightarrow> string" where
  "join sep [] = []"
| "join sep [x] = x"
| "join sep (x # y # ys) = x @ sep @ join sep (y # ys)"

text \<open>
  A Python \<open>set[str]\<close> is the list of its elements, each once. Two things about a set
  depend on the hash order of the interpreter and are parameters of the model: the text an
  f-string gives for a set (\<open>set_str\<close>), and which element \<open>pop()\<close> removes
  (\<open>set_pick\<close>, read modulo the size, so that every choice is an element of the set).
\<close>

record python =
  set_str :: "string list \<Rightarrow> string"
  set_pick :: "string list \<Rightarrow> nat"

definition set_add :: "string \<Rightarrow> string list \<Rightarrow> string list" where
  "set_add x S = (if x \<in> set S then S else S @ [x])"

definition set_pop :: "python \<Rightarrow> string list \<Rightarrow> error + string" where
  "set_pop py S = (if S = [] then Inl KeyError else Inr (S ! (set_pick py S mod length S)))"

text \<open>
  \<open>set(ids).difference({s.get(key) for s in data})\<close>: the requested ids, each once, that
  no returned record carries under \<open>key\<close>.
\<close>

definition missing_ids :: "string \<Rightarrow> string list \<Rightarrow> pydict list \<Rightarrow> string list" where
  "missing_ids key ids data = [i \<leftarrow> remdups ids. Some i \<notin> set (map (\<lambda>s. s key) data)]"

section \<open>The plan and the inventory clients\<close>

text \<open>
  Modelled from the spec: the plan records of \<open>external_resources_io.terraform\<close>, a library
  outside this repository (spec sections 3 and 6). A \<open>ResourceChange\<close> has a type and an
  optional change; a change has its actions and an optional post-apply attribute map, which
  holds \<open>kafka_version\<close> and the list \<open>broker_node_group_info\<close> of broker placements.
  An attribute map that is \<open>None\<close> or empty is \<open>None\<close> here: the code tests it with \<open>not\<close>.
  A non-empty attribute map has both keys, and a placement has both lists, as section 6
  says of the plan document; the index \<open>[0]\<close> into an empty list of placements is the one
  access to the plan that can fail.
\<close>

datatype Action = ActionCreate | ActionUpdate | ActionDelete | ActionNoop | ActionReplace

record broker_node_group =
  client_subnets :: "string list"
  security_groups :: "string list"

record attributes =
  kafka_version :: string
  broker_node_group_info :: "broker_node_group list"

record Change =
  actions :: "Action list"
  after :: "attributes option"

record ResourceChange =
  type :: string
  change :: "Change option"

text \<open>
  The boto3 clients, outside this repository, are parameters: what \<open>describe_subnets\<close> and
  \<open>describe_security_groups\<close> answer for a list of ids, and the pages of
  \<open>list_kafka_versions\<close>.
\<close>

record aws =
  describe_subnets :: "string list \<Rightarrow> pydict list"
  describe_security_groups :: "string list \<Rightarrow> pydict list"
  list_kafka_versions :: "pydict list list"

text \<open>
  Modelled from the spec: the contract of the inventory service (section 6), which is not
  code of this repository: a describe call returns only the records that exist, and ids
  without a record are omitted.
\<close>

record inventory =
  Subnets :: "pydict list"
  SecurityGroups :: "pydict list"
  KafkaVersions :: "pydict list list"

definition inventory_client :: "inventory \<Rightarrow> aws" where
  "inventory_client cloud =
     \<lparr> describe_subnets = (\<lambda>ids. [s \<leftarrow> Subnets cloud. s ''SubnetId'' \<in> set (map Some ids)]),
       describe_security_groups =
         (\<lambda>ids. [g \<leftarrow> SecurityGroups cloud. g ''GroupId'' \<in> set (map Some ids)]),
       list_kafka_versions = KafkaVersions cloud \<rparr>"

text \<open>\<open>msk_instance_updates\<close>, the same property in both validators.\<close>

definition msk_instance_updates :: "ResourceChange list \<Rightarrow> ResourceChange list" where
  "msk_instance_updates resource_changes =
     [c \<leftarrow> resource_changes.
        type c = ''aws_msk_cluster''
        \<and> (case change c of None \<Rightarrow> False | Some ch \<Rightarrow> ActionCreate \<in> set (actions ch))]"

section \<open>hooks\_lib/aws\_api.py\<close>

definition get_subnets :: "aws \<Rightarrow> string list \<Rightarrow> pydict list" where
  "get_subnets api subnets = describe_subnets api subnets"

definition get_security_groups :: "aws \<Rightarrow> string list \<Rightarrow> pydict list" where
  "get_security_groups api groups = describe_security_groups api groups"

definition get_kafka_versions :: "aws \<Rightarrow> string list" where
  "get_kafka_versions api = List.map_filter (\<lambda>v. v ''Version'') (concat (list_kafka_versions api))"

section \<open>hooks/post\_plan.py\<close>

definition MIN_SUBNETS :: nat where
  "MIN_SUBNETS = 3"

text \<open>The loop of \<open>_validate_subnets\<close> over the returned records: the report and \<open>vpc_ids\<close>.\<close>

fun post_plan_subnets_loop ::
  "pydict list \<Rightarrow> string list \<Rightarrow> string list \<Rightarrow> string list \<times> string list" where
  "post_plan_subnets_loop [] errors vpc_ids = (errors, vpc_ids)"
| "post_plan_subnets_loop (subnet # data) errors vpc_ids =
     (case subnet ''VpcId'' of
        None \<Rightarrow>
          post_plan_subnets_loop data
            (errors @ [''VpcId not found for subnet '' @ str_opt (subnet ''SubnetId'')]) vpc_ids
      | Some v \<Rightarrow> post_plan_subnets_loop data errors (set_add v vpc_ids))"

definition post_plan_validate_subnets ::
  "python \<Rightarrow> aws \<Rightarrow> string list \<Rightarrow> string list \<Rightarrow> error + (string list \<times> string option)" where
  "post_plan_validate_subnets py api subnets errors =
     (if length subnets < MIN_SUBNETS
      then Inr (errors @ [''At least 3 subnets are required''], None)
      else
        let data = get_subnets api subnets;
            missing = missing_ids ''SubnetId'' subnets data
        in if missing \<noteq> []
           then Inr (errors @ [''Subnet(s) '' @ set_str py missing @ '' not found''], None)
           else
             let (errors1, vpc_ids) = post_plan_subnets_loop data errors [];
                 errors2 = (if length vpc_ids > 1
                            then errors1 @ [''All subnets must belong to the same VPC'']
                            else errors1)
             in (case set_pop py vpc_ids of
                   Inl e \<Rightarrow> Inl e
                 | Inr vpc_id \<Rightarrow> Inr (errors2, Some vpc_id)))"

fun post_plan_security_groups_loop :: "string \<Rightarrow> pydict list \<Rightarrow> string list \<Rightarrow> string list" where
  "post_plan_security_groups_loop vpc_id [] errors = errors"
| "post_plan_security_groups_loop vpc_id (sg # data) errors =
     (if sg ''VpcId'' \<noteq> Some vpc_id
      then post_plan_security_groups_loop vpc_id data
             (errors @ [''Security group '' @ str_opt (sg ''GroupId'')
                        @ '' does not belong to the same VPC as the subnets''])
      else post_plan_security_groups_loop vpc_id data errors)"

definition post_plan_validate_security_groups ::
  "python \<Rightarrow> aws \<Rightarrow> string list \<Rightarrow> string \<Rightarrow> string list \<Rightarrow> string list" where
  "post_plan_validate_security_groups py api groups vpc_id errors =
     (let data = get_security_groups api groups;
          missing = missing_ids ''GroupId'' groups data
      in if missing \<noteq> []
         then errors @ [''Security group(s) '' @ set_str py missing @ '' not found'']
         else post_plan_security_groups_loop vpc_id data errors)"

definition validate_kafka_version :: "aws \<Rightarrow> string \<Rightarrow> string list \<Rightarrow> string list" where
  "validate_kafka_version api version errors =
     (let available_versions = get_kafka_versions api
      in if available_versions = []
         then errors @ [''Could not retrieve available Kafka versions from AWS.'']
         else if version \<notin> set available_versions
         then errors @ [''Invalid Kafka version: '' @ [CHR 0x27] @ version @ [CHR 0x27]
                        @ ''. Available versions are: '' @ join '', '' available_versions]
         else errors)"

text \<open>
  One turn of the loop of \<open>validate\<close>. The walrus test \<open>if vpc_id := ...\<close> is a truth
  test: it fails for \<open>None\<close> and for the empty string.
\<close>

definition post_plan_validate_update ::
  "python \<Rightarrow> aws \<Rightarrow> ResourceChange \<Rightarrow> string list \<Rightarrow> error + string list" where
  "post_plan_validate_update py api u errors =
     (case change u of
        None \<Rightarrow> Inr errors
      | Some ch \<Rightarrow>
          (case after ch of
             None \<Rightarrow> Inr errors
           | Some a \<Rightarrow>
               let errors1 = validate_kafka_version api (kafka_version a) errors
               in (case broker_node_group_info a of
                     [] \<Rightarrow> Inl IndexError
                   | b # _ \<Rightarrow>
                       (case post_plan_validate_subnets py api (client_subnets b) errors1 of
                          Inl e \<Rightarrow> Inl e
                        | Inr (errors2, None) \<Rightarrow> Inr errors2
                        | Inr (errors2, Some vpc_id) \<Rightarrow>
                            if vpc_id = [] then Inr errors2
                            else Inr (post_plan_validate_security_groups py api
                                        (security_groups b) vpc_id errors2)))))"

fun post_plan_validate_loop ::
  "python \<Rightarrow> aws \<Rightarrow> ResourceChange list \<Rightarrow> string list \<Rightarrow> error + string list" where
  "post_plan_validate_loop py api [] errors = Inr errors"
| "post_plan_validate_loop py api (u # us) errors =
     (case post_plan_validate_update py api u errors of
        Inl e \<Rightarrow> Inl e
      | Inr errors1 \<Rightarrow> post_plan_validate_loop py api us errors1)"

text \<open>
  \<open>validate\<close> on a fresh validator (\<open>errors = []\<close>): the exception that leaves it, or the
  final report \<open>self.errors\<close> with the returned \<open>not self.errors\<close>.
\<close>

definition post_plan_validate ::
  "python \<Rightarrow> aws \<Rightarrow> ResourceChange list \<Rightarrow> error + (string list \<times> bool)" where
  "post_plan_validate py api resource_changes =
     (case post_plan_validate_loop py api (msk_instance_updates resource_changes) [] of
        Inl e \<Rightarrow> Inl e
      | Inr errors \<Rightarrow> Inr (errors, errors = []))"

section \<open>validate\_plan.py\<close>

definition get_subnet :: "aws \<Rightarrow> string \<Rightarrow> error + pydict" where
  "get_subnet api subnet =
     (case describe_subnets api [subnet] of
        [] \<Rightarrow> Inl (SubnetNotFoundError subnet)
      | d # _ \<Rightarrow> Inr d)"

definition get_security_group :: "aws \<Rightarrow> string \<Rightarrow> error + pydict" where
  "get_security_group api subnet =
     (case describe_security_groups api [subnet] of
        [] \<Rightarrow> Inl (SubnetNotFoundError subnet)
      | d # _ \<Rightarrow> Inr d)"

text \<open>
  The loop of \<open>_validate_subnets\<close>: \<open>except SubnetNotFoundError\<close> records the message of
  that exception and goes on; any other exception leaves the loop.
\<close>

fun validate_plan_subnets_loop ::
  "aws \<Rightarrow> string list \<Rightarrow> string list \<Rightarrow> string list \<Rightarrow> error + (string list \<times> string list)" where
  "validate_plan_subnets_loop api [] errors vpc_ids = Inr (errors, vpc_ids)"
| "validate_plan_subnets_loop api (subnet # subnets) errors vpc_ids =
     (case get_subnet api subnet of
        Inr data \<Rightarrow>
          (case data ''VpcId'' of
             None \<Rightarrow>
               validate_plan_subnets_loop api subnets
                 (errors @ [''VpcId not found for subnet '' @ subnet]) vpc_ids
           | Some v \<Rightarrow> validate_plan_subnets_loop api subnets errors (set_add v vpc_ids))
      | Inl (SubnetNotFoundError s) \<Rightarrow>
          validate_plan_subnets_loop api subnets
            (errors @ [str_error (SubnetNotFoundError s)]) vpc_ids
      | Inl e \<Rightarrow> Inl e)"

text \<open>
  What one turn of the loop of \<open>_validate_subnets\<close> does for a subnet id: the entry it
  appends to the report, if any, and the VPC id it adds to \<open>vpc_ids\<close>, if any.
\<close>

definition validate_plan_subnet_entry :: "aws \<Rightarrow> string \<Rightarrow> string list" where
  "validate_plan_subnet_entry api subnet =
     (case describe_subnets api [subnet] of
        [] \<Rightarrow> [''Subnet '' @ subnet @ '' does not exist'']
      | d # _ \<Rightarrow>
          (case d ''VpcId'' of
             None \<Rightarrow> [''VpcId not found for subnet '' @ subnet]
           | Some v \<Rightarrow> []))"

definition validate_plan_subnet_vpc :: "aws \<Rightarrow> string \<Rightarrow> string option" where
  "validate_plan_subnet_vpc api subnet =
     (case describe_subnets api [subnet] of [] \<Rightarrow> None | d # _ \<Rightarrow> d ''VpcId'')"

definition validate_plan_validate_subnets ::
  "python \<Rightarrow> aws \<Rightarrow> string list \<Rightarrow> string list \<Rightarrow> error + (string list \<times> string option)" where
  "validate_plan_validate_subnets py api subnets errors =
     (if length subnets < 3
      then Inr (errors @ [''At least 3 subnets are required''], None)
      else
        case validate_plan_subnets_loop api subnets errors [] of
          Inl e \<Rightarrow> Inl e
        | Inr (errors1, vpc_ids) \<Rightarrow>
            let errors2 = (if length vpc_ids > 1
                           then errors1 @ [''All subnets must belong to the same VPC'']
                           else errors1)
            in (case set_pop py vpc_ids of
                  Inl e \<Rightarrow> Inl e
                | Inr vpc_id \<Rightarrow> Inr (errors2, Some vpc_id)))"

text \<open>
  \<open>_validate_security_groups\<close>: only \<open>SecurityGroupNotFoundError\<close> is caught.
\<close>

fun validate_plan_validate_security_groups ::
  "aws \<Rightarrow> string list \<Rightarrow> string \<Rightarrow> string list \<Rightarrow> error + string list" where
  "validate_plan_validate_security_groups api [] vpc_id errors = Inr errors"
| "validate_plan_validate_security_groups api (sg # groups) vpc_id errors =
     (case get_security_group api sg of
        Inr data \<Rightarrow>
          (case data ''VpcId'' of
             None \<Rightarrow>
               validate_plan_validate_security_groups api groups vpc_id
                 (errors @ [''VpcId not found for security group '' @ sg])
           | Some v \<Rightarrow>
               if v \<noteq> vpc_id
               then validate_plan_validate_security_groups api groups vpc_id
                      (errors @ [''Security group '' @ sg
                                 @ '' does not belong to the same VPC as the subnets''])
               else validate_plan_validate_security_groups api groups vpc_id errors)
      | Inl (SecurityGroupNotFoundError s) \<Rightarrow>
          validate_plan_validate_security_groups api groups vpc_id
            (errors @ [str_error (SecurityGroupNotFoundError s)])
      | Inl e \<Rightarrow> Inl e)"

definition validate_plan_validate_update ::
  "python \<Rightarrow> aws \<Rightarrow> ResourceChange \<Rightarrow> string list \<Rightarrow> error + string list" where
  "validate_plan_validate_update py api u errors =
     (case change u of
        None \<Rightarrow> Inr errors
      | Some ch \<Rightarrow>
          (case after ch of
             None \<Rightarrow> Inr errors
           | Some a \<Rightarrow>
               (case broker_node_group_info a of
                  [] \<Rightarrow> Inl IndexError
                | b # _ \<Rightarrow>
                    (case validate_plan_validate_subnets py api (client_subnets b) errors of
                       Inl e \<Rightarrow> Inl e
                     | Inr (errors1, None) \<Rightarrow> Inr errors1
                     | Inr (errors1, Some vpc_id) \<Rightarrow>
                         if vpc_id = [] then Inr errors1
                         else validate_plan_validate_security_groups api
                                (security_groups b) vpc_id errors1))))"

fun validate_plan_validate_loop ::
  "python \<Rightarrow> aws \<Rightarrow> ResourceChange list \<Rightarrow> string list \<Rightarrow> error + string list" where
  "validate_plan_validate_loop py api [] errors = Inr errors"
| "validate_plan_validate_loop py api (u # us) errors =
     (case validate_plan_validate_update py api u errors of
        Inl e \<Rightarrow> Inl e
      | Inr errors1 \<Rightarrow> validate_plan_validate_loop py api us errors1)"

definition validate_plan_validate ::
  "python \<Rightarrow> aws \<Rightarrow> ResourceChange list \<Rightarrow> error + (string list \<times> bool)" where
  "validate_plan_validate py api resource_changes =
     (case validate_plan_validate_loop py api (msk_instance_updates resource_changes) [] of
        Inl e \<Rightarrow> Inl e
      | Inr errors \<Rightarrow> Inr (errors, errors = []))"

section \<open>Resolution of the ids of a plan\<close>








section \<open>An inventory and plans to run the validators on\<close>

text \<open>
  An interpreter that writes a set as Python does, in the order of the model's list, and
  pops its first element.
\<close>

definition py0 :: python where
  "py0 = \<lparr> set_str = (\<lambda>S. ''{'' @ join '', '' (map (\<lambda>s. [CHR 0x27] @ s @ [CHR 0x27]) S) @ ''}''),
           set_pick = (\<lambda>S. 0) \<rparr>"


text \<open>
  Four subnets in two VPCs and three whose record has no VPC id; three security groups, one
  of them without a VPC id; two supported versions, on two pages.
\<close>

definition cloud0 :: inventory where
  "cloud0 =
     \<lparr> Subnets = [[''SubnetId'' \<mapsto> ''subnet-a'', ''VpcId'' \<mapsto> ''vpc-1''],
                  [''SubnetId'' \<mapsto> ''subnet-b'', ''VpcId'' \<mapsto> ''vpc-1''],
                  [''SubnetId'' \<mapsto> ''subnet-c'', ''VpcId'' \<mapsto> ''vpc-1''],
                  [''SubnetId'' \<mapsto> ''subnet-d'', ''VpcId'' \<mapsto> ''vpc-2''],
                  [''SubnetId'' \<mapsto> ''subnet-e''],
                  [''SubnetId'' \<mapsto> ''subnet-f''],
                  [''SubnetId'' \<mapsto> ''subnet-g'']],
       SecurityGroups = [[''GroupId'' \<mapsto> ''sg-1'', ''VpcId'' \<mapsto> ''vpc-1''],
                         [''GroupId'' \<mapsto> ''sg-2'', ''VpcId'' \<mapsto> ''vpc-2''],
                         [''GroupId'' \<mapsto> ''sg-3'']],
       KafkaVersions = [[[''Version'' \<mapsto> ''2.8.1'']],
                        [[''Status'' \<mapsto> ''ACTIVE''], [''Version'' \<mapsto> ''3.6.0'']]] \<rparr>"



definition api0 :: aws where
  "api0 = inventory_client cloud0"

text \<open>A client whose version listing comes back empty.\<close>

definition api_no_versions :: aws where
  "api_no_versions = inventory_client (cloud0 \<lparr> KafkaVersions := [[], [Map.empty]] \<rparr>)"

text \<open>A cluster with one broker placement, created by the plan.\<close>

definition placement :: "string list \<Rightarrow> string list \<Rightarrow> broker_node_group" where
  "placement subnets groups = \<lparr> client_subnets = subnets, security_groups = groups \<rparr>"

definition cluster_attributes :: "string \<Rightarrow> string list \<Rightarrow> string list \<Rightarrow> attributes" where
  "cluster_attributes version subnets groups =
     \<lparr> kafka_version = version, broker_node_group_info = [placement subnets groups] \<rparr>"

definition cluster_change :: "string \<Rightarrow> string list \<Rightarrow> string list \<Rightarrow> Change" where
  "cluster_change version subnets groups =
     \<lparr> actions = [ActionCreate], after = Some (cluster_attributes version subnets groups) \<rparr>"

definition cluster :: "string \<Rightarrow> string list \<Rightarrow> string list \<Rightarrow> ResourceChange" where
  "cluster version subnets groups =
     \<lparr> type = ''aws_msk_cluster'', change = Some (cluster_change version subnets groups) \<rparr>"

text \<open>A change of another resource type, which \<open>msk_instance_updates\<close> drops.\<close>

definition other_resource :: ResourceChange where
  "other_resource =
     \<lparr> type = ''aws_vpc'', change = Some \<lparr> actions = [ActionCreate], after = None \<rparr> \<rparr>"

section \<open>Facts about the Python model\<close>

lemma join_eq:
  "xs \<noteq> [] \<Longrightarrow> join sep xs = concat (map (\<lambda>x. x @ sep) (butlast xs)) @ last xs"
  by (induction sep xs rule: join.induct) auto

lemma set_add_set: "set (set_add x S) = insert x (set S)"
  by (auto simp: set_add_def)

lemma set_add_distinct: "distinct S \<Longrightarrow> distinct (set_add x S)"
  by (auto simp: set_add_def)

lemma set_pop_member: "S \<noteq> [] \<Longrightarrow> \<exists>x \<in> set S. set_pop py S = Inr x"
  by (simp add: set_pop_def)

lemma set_pop_empty: "set_pop py [] = Inl KeyError"
  by (simp add: set_pop_def)

lemma missing_ids_set:
  "set (missing_ids key ids data) = set ids - {i. \<exists>d \<in> set data. d key = Some i}"
  by (force simp: missing_ids_def image_iff)

lemma missing_ids_distinct: "distinct (missing_ids key ids data)"
  by (simp add: missing_ids_def)

section \<open>Facts about the example inventory\<close>

lemma api0_subnets:
  "describe_subnets api0 ids = [s \<leftarrow> Subnets cloud0. s ''SubnetId'' \<in> set (map Some ids)]"
  by (simp add: api0_def inventory_client_def)

lemma api0_groups:
  "describe_security_groups api0 ids =
     [g \<leftarrow> SecurityGroups cloud0. g ''GroupId'' \<in> set (map Some ids)]"
  by (simp add: api0_def inventory_client_def)

lemma api0_versions: "get_kafka_versions api0 = [''2.8.1'', ''3.6.0'']"
  by (simp add: api0_def inventory_client_def get_kafka_versions_def cloud0_def)

lemma api_no_versions_empty: "get_kafka_versions api_no_versions = []"
  by (simp add: api_no_versions_def inventory_client_def get_kafka_versions_def)

lemma cluster_parts:
  "change (cluster version subnets groups) = Some (cluster_change version subnets groups)"
  "after (cluster_change version subnets groups) = Some (cluster_attributes version subnets groups)"
  "broker_node_group_info (cluster_attributes version subnets groups) =
     placement subnets groups # []"
  "kafka_version (cluster_attributes version subnets groups) = version"
  "client_subnets (placement subnets groups) = subnets"
  "security_groups (placement subnets groups) = groups"
  by (simp_all add: cluster_def cluster_change_def cluster_attributes_def placement_def)

lemma msk_instance_updates_cluster:
  "msk_instance_updates (cluster version subnets groups # cs) =
     cluster version subnets groups # msk_instance_updates cs"
  by (simp add: msk_instance_updates_def cluster_def cluster_change_def)

lemma msk_instance_updates_other:
  "msk_instance_updates (other_resource # cs) = msk_instance_updates cs"
  by (simp add: msk_instance_updates_def other_resource_def)

lemma msk_instance_updates_Nil: "msk_instance_updates [] = []"
  by (simp add: msk_instance_updates_def)

section \<open>The loops of the pipeline hook\<close>





section \<open>The loop of the standalone validator\<close>

lemma validate_plan_subnets_loop_step:
  "validate_plan_subnets_loop api (subnet # subnets) errors vpc_ids =
     validate_plan_subnets_loop api subnets (errors @ validate_plan_subnet_entry api subnet)
       (case validate_plan_subnet_vpc api subnet of
          None \<Rightarrow> vpc_ids
        | Some v \<Rightarrow> set_add v vpc_ids)"
  by (simp add: get_subnet_def validate_plan_subnet_entry_def validate_plan_subnet_vpc_def
      split: list.splits option.splits)

lemma validate_plan_subnets_loop_result:
  "\<exists>vpc_ids'. validate_plan_subnets_loop api subnets errors vpc_ids =
       Inr (errors @ concat (map (validate_plan_subnet_entry api) subnets), vpc_ids')
     \<and> set vpc_ids' = set vpc_ids \<union> set (List.map_filter (validate_plan_subnet_vpc api) subnets)
     \<and> (distinct vpc_ids \<longrightarrow> distinct vpc_ids')"
proof (induction subnets arbitrary: errors vpc_ids)
  case Nil
  show ?case by simp
next
  case (Cons s subnets)
  define acc where "acc = (case validate_plan_subnet_vpc api s of
          None \<Rightarrow> vpc_ids | Some v \<Rightarrow> set_add v vpc_ids)"
  define errors1 where "errors1 = errors @ validate_plan_subnet_entry api s"
  from Cons.IH [of errors1 acc] obtain vpc_ids' where ih:
    "validate_plan_subnets_loop api subnets errors1 acc =
       Inr (errors1 @ concat (map (validate_plan_subnet_entry api) subnets), vpc_ids')"
    "set vpc_ids' = set acc \<union> set (List.map_filter (validate_plan_subnet_vpc api) subnets)"
    "distinct acc \<longrightarrow> distinct vpc_ids'"
    by blast
  have step: "validate_plan_subnets_loop api (s # subnets) errors vpc_ids =
       Inr (errors @ concat (map (validate_plan_subnet_entry api) (s # subnets)), vpc_ids')"
    unfolding validate_plan_subnets_loop_step acc_def [symmetric] errors1_def [symmetric] ih(1)
    by (simp add: errors1_def)
  have acc_set: "set acc = set vpc_ids \<union> set (List.map_filter (validate_plan_subnet_vpc api) [s])"
    by (simp add: acc_def set_add_set split: option.splits)
  have sets: "set vpc_ids' =
      set vpc_ids \<union> set (List.map_filter (validate_plan_subnet_vpc api) (s # subnets))"
    unfolding ih(2) acc_set by (auto split: option.splits)
  have "distinct vpc_ids \<longrightarrow> distinct acc"
    by (simp add: acc_def set_add_distinct split: option.splits)
  with ih(3) have dist: "distinct vpc_ids \<longrightarrow> distinct vpc_ids'"
    by blast
  show ?case
    using step sets dist by blast
qed

lemma validate_plan_validate_subnets_result:
  assumes "MIN_SUBNETS \<le> length subnets"
    and "List.map_filter (validate_plan_subnet_vpc api) subnets \<noteq> []"
  shows "\<exists>v \<in> set (List.map_filter (validate_plan_subnet_vpc api) subnets).
           validate_plan_validate_subnets py api subnets errors =
             Inr (errors @ concat (map (validate_plan_subnet_entry api) subnets)
                    @ (if 1 < card (set (List.map_filter (validate_plan_subnet_vpc api) subnets))
                       then [''All subnets must belong to the same VPC''] else []),
                  Some v)"
proof -
  let ?vpcs = "List.map_filter (validate_plan_subnet_vpc api) subnets"
  from validate_plan_subnets_loop_result [where api = api and subnets = subnets
      and errors = errors and vpc_ids = "[]"]
  obtain vpc_ids where l:
    "validate_plan_subnets_loop api subnets errors [] =
       Inr (errors @ concat (map (validate_plan_subnet_entry api) subnets), vpc_ids)"
    "set vpc_ids = set ?vpcs" "distinct vpc_ids"
    by auto
  have len: "length vpc_ids = card (set ?vpcs)"
    using l(2,3) distinct_card by fastforce
  from assms(2) l(2) have "vpc_ids \<noteq> []"
    by auto
  then obtain v where v: "v \<in> set vpc_ids" "set_pop py vpc_ids = Inr v"
    using set_pop_member by blast
  have "validate_plan_validate_subnets py api subnets errors =
             Inr (errors @ concat (map (validate_plan_subnet_entry api) subnets)
                    @ (if 1 < card (set ?vpcs)
                       then [''All subnets must belong to the same VPC''] else []),
                  Some v)"
    using assms(1) l(1) v(2) len
    by (simp add: validate_plan_validate_subnets_def MIN_SUBNETS_def Let_def)
  with v(1) l(2) show ?thesis
    by blast
qed

section \<open>The Version Rule\<close>

text \<open>
  C5. When the supported versions come back empty, the Version Rule appends exactly one
  entry, the retrieval failure, whatever the proposed version is: membership is not
  looked at, and no entry it appends is an invalid-version violation.
\<close>

theorem version_rule_empty_set:
  assumes "get_kafka_versions api = []"
  shows "validate_kafka_version api version errors =
           errors @ [''Could not retrieve available Kafka versions from AWS.'']
         \<and> (\<forall>rest. ''Invalid Kafka version: '' @ rest
               \<notin> set (drop (length errors) (validate_kafka_version api version errors)))"
  using assms by (simp add: validate_kafka_version_def)

theorem version_rule_empty_set_witness:
  "get_kafka_versions api_no_versions = []
   \<and> validate_kafka_version api_no_versions ''3.6.0'' [''earlier''] =
       [''earlier'', ''Could not retrieve available Kafka versions from AWS.'']"
proof -
  have h: "get_kafka_versions api_no_versions = []"
    by (rule api_no_versions_empty)
  show ?thesis
    using h version_rule_empty_set [OF h, where version = "''3.6.0''" and errors = "[''earlier'']"]
    by simp
qed

text \<open>
  C8. With a non-empty list of supported versions, a proposed version outside it gets
  exactly one violation, which names the version and lists the supported versions joined by
  a comma and a space in the order of the list; a proposed version in the list gets none.
\<close>

theorem version_rule_membership:
  assumes "get_kafka_versions api \<noteq> []"
  shows "validate_kafka_version api version errors =
           (if version \<in> set (get_kafka_versions api) then errors
            else errors @ [''Invalid Kafka version: '' @ [CHR 0x27] @ version @ [CHR 0x27]
                           @ ''. Available versions are: ''
                           @ join '', '' (get_kafka_versions api)])"
  using assms by (simp add: validate_kafka_version_def)

theorem version_rule_membership_witness:
  "get_kafka_versions api0 \<noteq> []
   \<and> validate_kafka_version api0 ''99.99.99'' [] =
       [''Invalid Kafka version: '99.99.99'. Available versions are: 2.8.1, 3.6.0'']
   \<and> validate_kafka_version api0 ''3.6.0'' [] = []"
proof -
  have h: "get_kafka_versions api0 \<noteq> []"
    by (simp add: api0_versions)
  show ?thesis
    using h version_rule_membership [OF h, where version = "''99.99.99''" and errors = "[]"]
      version_rule_membership [OF h, where version = "''3.6.0''" and errors = "[]"]
    by (simp add: api0_versions)
qed

section \<open>The Subnet Rule\<close>

text \<open>
  C1. Claimed: when no VPC id was collected, the Subnet Rule returns absent instead of
  failing. The code ends with \<open>vpc_ids.pop()\<close>, which raises \<open>KeyError\<close> on the empty
  set: in the pipeline hook when all three subnets resolve to records without a VPC id, in
  the standalone validator also when none of the subnets exists.
\<close>

theorem empty_vpc_set_raises:
  "post_plan_validate_subnets py api0 [''subnet-e'', ''subnet-f'', ''subnet-g''] [] = Inl KeyError
   \<and> validate_plan_validate_subnets py api0 [''subnet-e'', ''subnet-f'', ''subnet-g''] []
       = Inl KeyError
   \<and> validate_plan_validate_subnets py api0 [''subnet-x'', ''subnet-y'', ''subnet-z''] []
       = Inl KeyError"
  by (simp add: post_plan_validate_subnets_def MIN_SUBNETS_def missing_ids_def get_subnets_def
      api0_subnets cloud0_def set_pop_def validate_plan_validate_subnets_def get_subnet_def)

text \<open>
  C3. Claimed: with some requested subnets missing, the rule reports them and goes on with
  the records that did resolve. In the pipeline hook the rule stops there: for the request
  of \<open>subnet-a\<close> (in \<open>vpc-1\<close>), \<open>subnet-e\<close> (a record without VPC id) and \<open>subnet-z\<close>
  (no record), the report holds the missing-subnet entry alone and the result is absent.
\<close>

theorem missing_subnets_counterexample:
  "get_subnets api0 [''subnet-a'', ''subnet-e'', ''subnet-z''] =
     [[''SubnetId'' \<mapsto> ''subnet-a'', ''VpcId'' \<mapsto> ''vpc-1''], [''SubnetId'' \<mapsto> ''subnet-e'']]
   \<and> post_plan_validate_subnets py0 api0 [''subnet-a'', ''subnet-e'', ''subnet-z''] [] =
       Inr ([''Subnet(s) {'subnet-z'} not found''], None)"
  by (simp add: post_plan_validate_subnets_def MIN_SUBNETS_def missing_ids_def get_subnets_def
      api0_subnets cloud0_def py0_def)

text \<open>
  C3, as amended. With at least 3 requested ids of which some have no record in the answer
  of the inventory, the rule of the pipeline hook appends exactly one violation, which
  writes out the set of the requested ids that no returned record carries, and returns
  absent; nothing else is checked, and \<open>validate\<close> goes on to the next change without
  running the Security-Group Rule. The rule of the standalone validator goes on instead: it
  appends one entry for every id without a record and one for every record without a VPC
  id, in the order of the list, then makes the same-VPC check over the VPC ids of the
  records that did resolve, and returns one of these ids when there is one.
\<close>

theorem missing_subnets_end_the_rule:
  assumes "change u = Some ch" and "after ch = Some a"
    and "broker_node_group_info a = b # bs"
    and "MIN_SUBNETS \<le> length (client_subnets b)"
    and "missing_ids ''SubnetId'' (client_subnets b) (get_subnets api (client_subnets b)) \<noteq> []"
  shows "post_plan_validate_subnets py api (client_subnets b) errors =
           Inr (errors @ [''Subnet(s) ''
                  @ set_str py (missing_ids ''SubnetId'' (client_subnets b)
                                  (get_subnets api (client_subnets b)))
                  @ '' not found''], None)
         \<and> set (missing_ids ''SubnetId'' (client_subnets b) (get_subnets api (client_subnets b))) =
             set (client_subnets b)
             - {i. \<exists>d \<in> set (get_subnets api (client_subnets b)). d ''SubnetId'' = Some i}
         \<and> post_plan_validate_update py api u errors =
             Inr (validate_kafka_version api (kafka_version a) errors
                  @ [''Subnet(s) ''
                     @ set_str py (missing_ids ''SubnetId'' (client_subnets b)
                                     (get_subnets api (client_subnets b)))
                     @ '' not found''])
         \<and> (List.map_filter (validate_plan_subnet_vpc api) (client_subnets b) \<noteq> [] \<longrightarrow>
              (\<exists>v \<in> set (List.map_filter (validate_plan_subnet_vpc api) (client_subnets b)).
                 validate_plan_validate_subnets py' api (client_subnets b) errors =
                   Inr (errors @ concat (map (validate_plan_subnet_entry api) (client_subnets b))
                          @ (if 1 < card (set (List.map_filter (validate_plan_subnet_vpc api)
                                                 (client_subnets b)))
                             then [''All subnets must belong to the same VPC''] else []),
                        Some v)))"
proof -
  have rule: "post_plan_validate_subnets py api (client_subnets b) errs =
           Inr (errs @ [''Subnet(s) ''
                  @ set_str py (missing_ids ''SubnetId'' (client_subnets b)
                                  (get_subnets api (client_subnets b)))
                  @ '' not found''], None)" for errs
    using assms(4,5) by (simp add: post_plan_validate_subnets_def Let_def)
  have upd: "post_plan_validate_update py api u errors =
             Inr (validate_kafka_version api (kafka_version a) errors
                  @ [''Subnet(s) ''
                     @ set_str py (missing_ids ''SubnetId'' (client_subnets b)
                                     (get_subnets api (client_subnets b)))
                     @ '' not found''])"
    by (simp add: post_plan_validate_update_def assms(1,2,3) rule Let_def)
  show ?thesis
    using rule [of errors] upd missing_ids_set
      validate_plan_validate_subnets_result [OF assms(4), where api = api and py = py'
        and errors = errors]
    by blast
qed

theorem missing_subnets_end_the_rule_witness:
  "MIN_SUBNETS \<le> length [''subnet-a'', ''subnet-e'', ''subnet-y'', ''subnet-z'']
   \<and> missing_ids ''SubnetId'' [''subnet-a'', ''subnet-e'', ''subnet-y'', ''subnet-z'']
        (get_subnets api0 [''subnet-a'', ''subnet-e'', ''subnet-y'', ''subnet-z''])
       = [''subnet-y'', ''subnet-z'']
   \<and> post_plan_validate_subnets py0 api0
        [''subnet-a'', ''subnet-e'', ''subnet-y'', ''subnet-z''] [] =
        Inr ([''Subnet(s) {'subnet-y', 'subnet-z'} not found''], None)
   \<and> post_plan_validate_update py0 api0
        (cluster ''2.8.1'' [''subnet-a'', ''subnet-e'', ''subnet-y'', ''subnet-z''] [''sg-2'']) [] =
        Inr [''Subnet(s) {'subnet-y', 'subnet-z'} not found'']
   \<and> validate_plan_validate_subnets py0 api0
        [''subnet-a'', ''subnet-e'', ''subnet-y'', ''subnet-z''] [] =
        Inr ([''VpcId not found for subnet subnet-e'', ''Subnet subnet-y does not exist'',
              ''Subnet subnet-z does not exist''], Some ''vpc-1'')"
proof -
  let ?S = "[''subnet-a'', ''subnet-e'', ''subnet-y'', ''subnet-z'']"
  let ?G = "[''sg-2'']"
  let ?u = "cluster ''2.8.1'' ?S ?G"
  let ?ch = "cluster_change ''2.8.1'' ?S ?G"
  let ?a = "cluster_attributes ''2.8.1'' ?S ?G"
  let ?b = "placement ?S ?G"
  have h1: "change ?u = Some ?ch" by (rule cluster_parts)
  have h2: "after ?ch = Some ?a" by (rule cluster_parts)
  have h3: "broker_node_group_info ?a = ?b # []" by (rule cluster_parts)
  have h4: "MIN_SUBNETS \<le> length (client_subnets ?b)"
    by (simp add: MIN_SUBNETS_def cluster_parts)
  have m: "missing_ids ''SubnetId'' ?S (get_subnets api0 ?S) = [''subnet-y'', ''subnet-z'']"
    by (simp add: missing_ids_def get_subnets_def api0_subnets cloud0_def)
  then have h5: "missing_ids ''SubnetId'' (client_subnets ?b)
       (get_subnets api0 (client_subnets ?b)) \<noteq> []"
    by (simp add: cluster_parts)
  have k: "validate_kafka_version api0 ''2.8.1'' [] = []"
    by (simp add: validate_kafka_version_def api0_versions)
  have vp: "List.map_filter (validate_plan_subnet_vpc api0) ?S = [''vpc-1'']"
    by (simp add: validate_plan_subnet_vpc_def api0_subnets cloud0_def)
  have en: "concat (map (validate_plan_subnet_entry api0) ?S) =
      [''VpcId not found for subnet subnet-e'', ''Subnet subnet-y does not exist'',
       ''Subnet subnet-z does not exist'']"
    by (simp add: validate_plan_subnet_entry_def api0_subnets cloud0_def)
  have st: "set_str py0 [''subnet-y'', ''subnet-z''] = ''{'subnet-y', 'subnet-z'}''"
    by (simp add: py0_def)
  from missing_subnets_end_the_rule [OF h1 h2 h3 h4 h5, where py = py0 and py' = py0
      and errors = "[]"]
  show ?thesis
    unfolding cluster_parts m vp en k st using h4 by (simp add: cluster_parts)
qed




text \<open>
  C10. The count is the length of the list: for one existing subnet id written three times,
  whose record carries a VPC id, no requested id is missing, and the Subnet Rule of either
  validator leaves the report as it was and returns the VPC id of that subnet.
\<close>

theorem repeated_subnet:
  assumes "describe_subnets api [s, s, s] = [d]" and "describe_subnets api [s] = [d]"
    and "d ''SubnetId'' = Some s" and "d ''VpcId'' = Some v"
  shows "missing_ids ''SubnetId'' [s, s, s] (get_subnets api [s, s, s]) = []
       \<and> post_plan_validate_subnets py api [s, s, s] errors = Inr (errors, Some v)
       \<and> validate_plan_validate_subnets py api [s, s, s] errors = Inr (errors, Some v)"
  using assms
  by (simp add: missing_ids_def get_subnets_def post_plan_validate_subnets_def MIN_SUBNETS_def
      validate_plan_validate_subnets_def get_subnet_def set_add_def set_pop_def)

theorem repeated_subnet_witness:
  "describe_subnets api0 [''subnet-a'', ''subnet-a'', ''subnet-a'']
     = [[''SubnetId'' \<mapsto> ''subnet-a'', ''VpcId'' \<mapsto> ''vpc-1'']]
   \<and> describe_subnets api0 [''subnet-a''] = [[''SubnetId'' \<mapsto> ''subnet-a'', ''VpcId'' \<mapsto> ''vpc-1'']]
   \<and> post_plan_validate_subnets py0 api0 [''subnet-a'', ''subnet-a'', ''subnet-a''] []
       = Inr ([], Some ''vpc-1'')
   \<and> validate_plan_validate_subnets py0 api0 [''subnet-a'', ''subnet-a'', ''subnet-a''] []
       = Inr ([], Some ''vpc-1'')"
proof -
  let ?d = "[''SubnetId'' \<mapsto> ''subnet-a'', ''VpcId'' \<mapsto> ''vpc-1'']"
  have h1: "describe_subnets api0 [''subnet-a'', ''subnet-a'', ''subnet-a''] = [?d]"
    by (simp add: api0_subnets cloud0_def)
  have h2: "describe_subnets api0 [''subnet-a''] = [?d]"
    by (simp add: api0_subnets cloud0_def)
  have h3: "?d ''SubnetId'' = Some ''subnet-a''" by simp
  have h4: "?d ''VpcId'' = Some ''vpc-1''" by simp
  show ?thesis
    using h1 h2 repeated_subnet [OF h1 h2 h3 h4, where py = py0 and errors = "[]"] by simp
qed

section \<open>The Security-Group Rule\<close>

text \<open>
  C4. Claimed: a resolved security group without a VPC attribute gets a violation about the
  missing attribute, distinct from the mismatch violation. The standalone validator does
  so; the pipeline hook compares \<open>sg.get("VpcId")\<close> with the VPC id and reports the group
  \<open>sg-3\<close>, which has no VPC attribute, with the words of the mismatch violation.
\<close>

theorem group_without_vpc:
  "get_security_groups api0 [''sg-3''] = [[''GroupId'' \<mapsto> ''sg-3'']]
   \<and> post_plan_validate_security_groups py api0 [''sg-3''] ''vpc-1'' [] =
       [''Security group sg-3 does not belong to the same VPC as the subnets'']
   \<and> validate_plan_validate_security_groups api0 [''sg-3''] ''vpc-1'' [] =
       Inr [''VpcId not found for security group sg-3'']"
  by (simp add: post_plan_validate_security_groups_def get_security_groups_def missing_ids_def
      api0_groups cloud0_def str_opt_def get_security_group_def)

section \<open>Runs of validate\<close>

text \<open>
  C2. Claimed: an id without a record in the inventory never leaves \<open>validate\<close> as a fault.
  In the standalone validator \<open>get_security_group\<close> raises \<open>SubnetNotFoundError\<close>, while
  \<open>_validate_security_groups\<close> catches \<open>SecurityGroupNotFoundError\<close>: for three subnets of
  one VPC and the unknown group \<open>sg-9\<close> the exception leaves \<open>validate\<close>. The pipeline hook
  records the missing group in the report.
\<close>

theorem missing_security_group_raises:
  "validate_plan_validate py api0
     [cluster ''2.8.1'' [''subnet-a'', ''subnet-b'', ''subnet-c''] [''sg-9'']]
     = Inl (SubnetNotFoundError ''sg-9'')
   \<and> post_plan_validate py0 api0
     [cluster ''2.8.1'' [''subnet-a'', ''subnet-b'', ''subnet-c''] [''sg-9'']]
     = Inr ([''Security group(s) {'sg-9'} not found''], False)"
  by (simp add: validate_plan_validate_def msk_instance_updates_cluster msk_instance_updates_Nil
      validate_plan_validate_update_def cluster_parts
      validate_plan_validate_subnets_def get_subnet_def get_security_group_def
      api0_subnets api0_groups cloud0_def set_add_def set_pop_def
      post_plan_validate_def post_plan_validate_update_def validate_kafka_version_def
      api0_versions post_plan_validate_subnets_def MIN_SUBNETS_def get_subnets_def
      missing_ids_def post_plan_validate_security_groups_def get_security_groups_def py0_def)

text \<open>
  C6. When the only matching change lists fewer than 3 subnets and proposes a supported
  version, \<open>validate\<close> returns false and the report is the subnet-count violation alone,
  whatever the inventory says about the security groups of the change.
\<close>

theorem too_few_subnets:
  assumes "msk_instance_updates resource_changes = [u]"
    and "change u = Some ch" and "after ch = Some a"
    and "broker_node_group_info a = b # bs"
    and "length (client_subnets b) < 3"
    and "kafka_version a \<in> set (get_kafka_versions api)"
  shows "post_plan_validate py api resource_changes =
           Inr ([''At least 3 subnets are required''], False)"
proof -
  have v: "validate_kafka_version api (kafka_version a) [] = []"
    using assms(6) by (auto simp: validate_kafka_version_def Let_def)
  have s: "post_plan_validate_subnets py api (client_subnets b) [] =
            Inr ([''At least 3 subnets are required''], None)"
    using assms(5) by (simp add: post_plan_validate_subnets_def MIN_SUBNETS_def)
  have "post_plan_validate_update py api u [] = Inr [''At least 3 subnets are required'']"
    using assms(2,3,4) v s by (simp add: post_plan_validate_update_def)
  then show ?thesis
    using assms(1) by (simp add: post_plan_validate_def)
qed

theorem too_few_subnets_witness:
  "msk_instance_updates
     [other_resource, cluster ''2.8.1'' [''subnet-a'', ''subnet-b''] [''sg-9'', ''sg-2'']]
     = [cluster ''2.8.1'' [''subnet-a'', ''subnet-b''] [''sg-9'', ''sg-2'']]
   \<and> length [''subnet-a'', ''subnet-b''] < (3::nat)
   \<and> ''2.8.1'' \<in> set (get_kafka_versions api0)
   \<and> missing_ids ''GroupId'' [''sg-9'', ''sg-2''] (get_security_groups api0 [''sg-9'', ''sg-2''])
       = [''sg-9'']
   \<and> post_plan_validate py0 api0
       [other_resource, cluster ''2.8.1'' [''subnet-a'', ''subnet-b''] [''sg-9'', ''sg-2'']]
       = Inr ([''At least 3 subnets are required''], False)"
proof -
  let ?S = "[''subnet-a'', ''subnet-b'']"
  let ?G = "[''sg-9'', ''sg-2'']"
  let ?u = "cluster ''2.8.1'' ?S ?G"
  let ?ch = "cluster_change ''2.8.1'' ?S ?G"
  let ?a = "cluster_attributes ''2.8.1'' ?S ?G"
  let ?b = "placement ?S ?G"
  have h1: "msk_instance_updates [other_resource, ?u] = [?u]"
    by (simp add: msk_instance_updates_other msk_instance_updates_cluster
        msk_instance_updates_Nil)
  have h2: "change ?u = Some ?ch" by (rule cluster_parts)
  have h3: "after ?ch = Some ?a" by (rule cluster_parts)
  have h4: "broker_node_group_info ?a = ?b # []" by (rule cluster_parts)
  have h5: "length (client_subnets ?b) < 3" by (simp add: cluster_parts)
  have h6: "kafka_version ?a \<in> set (get_kafka_versions api0)"
    by (simp add: cluster_parts api0_versions)
  have m: "missing_ids ''GroupId'' ?G (get_security_groups api0 ?G) = [''sg-9'']"
    by (simp add: missing_ids_def get_security_groups_def api0_groups cloud0_def)
  show ?thesis
    using h1 m too_few_subnets [OF h1 h2 h3 h4 h5 h6, where py = py0]
    by (simp add: api0_versions)
qed

section \<open>The two validators on an inventory whose ids name one record each\<close>













subsection \<open>The records returned for ids that resolve\<close>










subsection \<open>The rules on ids that resolve\<close>










subsection \<open>The runs agree\<close>








subsection \<open>A run of both validators on the example inventory\<close>





end
